theory Spec2Isabelle
  imports Complex_Main
begin

section \<open>The grid world of src/environments/grid_world.py\<close>

text \<open>
  Python integers are \<open>int\<close>, Python floats are idealised as \<open>real\<close>, a coordinate
  tuple \<open>(x, y)\<close> is a pair of integers, and every exception the code can raise is a
  value: a function that can raise returns \<open>py_error + 'a\<close>, with \<open>Inl\<close> the error.
  The draws of numpy's global random source are explicit arguments.
\<close>

subsection \<open>Errors and Python sequences\<close>

datatype py_error =
    AssertionError
  | IndexError
  | ZeroDivisionError
  | ValueError
  | AttributeError
  | DrawsExhausted
    \<comment> \<open>not a Python exception: the finite list of random draws handed to \<open>reset\<close>
        ran out before its rejection loop stopped, so the call has not returned\<close>

text \<open>
  The position an index \<open>i\<close> denotes in a sequence of \<open>n\<close> elements: a negative index
  counts from the end, and an index outside \<open>[-n, n)\<close> denotes none.
\<close>

definition py_index :: "nat \<Rightarrow> int \<Rightarrow> nat option" where
  "py_index n i =
     (if 0 \<le> i \<and> i < int n then Some (nat i)
      else if - int n \<le> i \<and> i < 0 then Some (nat (i + int n))
      else None)"

text \<open>Reading \<open>xs[i]\<close> and the assignment \<open>xs[i] = v\<close>; out of range both raise.\<close>

definition py_get :: "'a list \<Rightarrow> int \<Rightarrow> py_error + 'a" where
  "py_get xs i =
     (case py_index (length xs) i of
        None \<Rightarrow> Inl IndexError
      | Some k \<Rightarrow> Inr (xs ! k))"

definition py_set :: "'a list \<Rightarrow> int \<Rightarrow> 'a \<Rightarrow> py_error + 'a list" where
  "py_set xs i v =
     (case py_index (length xs) i of
        None \<Rightarrow> Inl IndexError
      | Some k \<Rightarrow> Inr (xs[k := v]))"

text \<open>Reading the cell \<open>grid[r][c]\<close> of a list of rows.\<close>

definition py_get2 :: "'a list list \<Rightarrow> int \<Rightarrow> int \<Rightarrow> py_error + 'a" where
  "py_get2 grid r c =
     (case py_get grid r of Inl e \<Rightarrow> Inl e | Inr row \<Rightarrow> py_get row c)"

text \<open>Sequencing: the first exception raised ends the computation.\<close>

definition and_then :: "py_error + 'a \<Rightarrow> ('a \<Rightarrow> py_error + 'b) \<Rightarrow> py_error + 'b" where
  "and_then m f = (case m of Inl e \<Rightarrow> Inl e | Inr x \<Rightarrow> f x)"

subsection \<open>Reward distributions\<close>

text \<open>
  Modelled from the spec: the class \<open>StochasticReward\<close> is imported from a module that is
  not among the sources. The spec describes it as an opaque capability object per grid
  cell, deterministic (a point mass) or stochastic, that exposes \<open>sample\<close>,
  \<open>expected_value\<close>, \<open>expected_value_squared\<close> and \<open>variance\<close>. The field \<open>value\<close> is
  the reward value the object stands for (its first constructor argument, or its mean);
  it is what comparing and sorting reward objects looks at. \<open>sample\<close> takes the state of
  the random source and returns the sequence of which the code reads element 0.
\<close>

record StochasticReward =
  "value" :: real
  sample :: "nat \<Rightarrow> real list"
  expected_value :: real
  expected_value_squared :: real
  variance :: real

text \<open>
  Modelled from the spec: \<open>StochasticReward(v, deterministic=True, mean=v)\<close> is the point
  mass at \<open>v\<close>.
\<close>

definition deterministic_reward :: "real \<Rightarrow> StochasticReward" where
  "deterministic_reward v =
     \<lparr>value = v, sample = (\<lambda>_. [v]), expected_value = v,
      expected_value_squared = v * v, variance = 0\<rparr>"

subsection \<open>The environment object\<close>

type_synonym coord = "int \<times> int"

text \<open>A transition record: state, executed action, reward, next state, done.\<close>

type_synonym transition = "coord \<times> int \<times> real \<times> coord \<times> bool"

text \<open>
  The attributes of a \<open>GridWorld\<close> object. \<open>distinct_rewards\<close> is \<open>None\<close> while the
  attribute does not exist (the constructor sets it under one task only). \<open>barrier_set\<close>
  lists the elements of the Python set, each once, in the order they were added.
\<close>

record GridWorld =
  height :: int
  width :: int
  actions :: "int list"
  n_states :: int
  n_actions :: int
  transition_probabilities :: "real list"
  terminal_states :: "coord list"
  barrier_states :: "coord list"
  initial_state :: "coord option"
  rewards :: "StochasticReward list list"
  expected_rewards :: "real list list"
  encoded_state :: int
  state :: coord
  transitions :: "transition list"
  task :: string
  distinct_rewards :: "int option"
  weights :: "real list"
  n_weights :: int
  barrier_set :: "int list"
  danger_sets :: "int set list"

definition UP :: int where "UP = 0"
definition RIGHT :: int where "RIGHT = 1"
definition DOWN :: int where "DOWN = 2"
definition LEFT :: int where "LEFT = 3"

subsection \<open>State handling\<close>

definition encode_state :: "GridWorld \<Rightarrow> coord \<Rightarrow> int" where
  "encode_state g st = (case st of (x, y) \<Rightarrow> x * width g + y)"

text \<open>
  \<open>//\<close> and \<open>%\<close> are floor division and its remainder, as \<open>div\<close> and \<open>mod\<close> on
  \<open>int\<close> are; a zero width raises.
\<close>

definition decode_state :: "GridWorld \<Rightarrow> int \<Rightarrow> py_error + coord" where
  "decode_state g s =
     (if width g = 0 then Inl ZeroDivisionError
      else Inr (s div width g, s mod width g))"

text \<open>
  The rejection loop of \<open>reset\<close>: each draw is a pair of raw random numbers, reduced to
  \<open>randint(width)\<close> and \<open>randint(height)\<close>; the first coordinate that is not terminal is
  taken.
\<close>

fun draw_start :: "GridWorld \<Rightarrow> (nat \<times> nat) list \<Rightarrow> py_error + coord" where
  "draw_start g [] = Inl DrawsExhausted"
| "draw_start g ((a, b) # ds) =
     (if width g \<le> 0 \<or> height g \<le> 0 then Inl ValueError
      else let x = int a mod width g; y = int b mod height g
           in if (x, y) \<notin> set (terminal_states g) then Inr (x, y) else draw_start g ds)"

definition reset :: "GridWorld \<Rightarrow> (nat \<times> nat) list \<Rightarrow> py_error + (int \<times> GridWorld)" where
  "reset g draws =
     (case (case initial_state g of
              Some st \<Rightarrow> Inr st
            | None \<Rightarrow> draw_start g draws) of
        Inl e \<Rightarrow> Inl e
      | Inr st \<Rightarrow>
          Inr (encode_state g st,
               g\<lparr>transitions := [], state := st, encoded_state := encode_state g st\<rparr>))"

definition is_terminal_state :: "GridWorld \<Rightarrow> coord \<Rightarrow> bool" where
  "is_terminal_state g st = (st \<in> set (terminal_states g))"

subsection \<open>Reward queries\<close>

definition get_reward :: "GridWorld \<Rightarrow> coord \<Rightarrow> int \<Rightarrow> coord \<Rightarrow> py_error + StochasticReward" where
  "get_reward g st action next_state =
     py_get2 (rewards g) (snd next_state) (fst next_state)"

definition get_sampled_reward ::
  "GridWorld \<Rightarrow> nat \<Rightarrow> coord \<Rightarrow> int \<Rightarrow> coord \<Rightarrow> py_error + real" where
  "get_sampled_reward g seed st action next_state =
     (case py_get2 (rewards g) (snd next_state) (fst next_state) of
        Inl e \<Rightarrow> Inl e
      | Inr r \<Rightarrow> py_get (sample r seed) 0)"

definition get_expected_reward :: "GridWorld \<Rightarrow> coord \<Rightarrow> int \<Rightarrow> coord \<Rightarrow> py_error + real" where
  "get_expected_reward g st action next_state =
     (case py_get2 (rewards g) (snd next_state) (fst next_state) of
        Inl e \<Rightarrow> Inl e
      | Inr r \<Rightarrow> Inr (expected_value r))"

definition get_expected_reward_squared ::
  "GridWorld \<Rightarrow> coord \<Rightarrow> int \<Rightarrow> coord \<Rightarrow> py_error + real" where
  "get_expected_reward_squared g st action next_state =
     (case py_get2 (rewards g) (snd next_state) (fst next_state) of
        Inl e \<Rightarrow> Inl e
      | Inr r \<Rightarrow> Inr (expected_value_squared r))"

definition get_reward_variance :: "GridWorld \<Rightarrow> coord \<Rightarrow> int \<Rightarrow> coord \<Rightarrow> py_error + real" where
  "get_reward_variance g st action next_state =
     (case py_get2 (rewards g) (snd next_state) (fst next_state) of
        Inl e \<Rightarrow> Inl e
      | Inr r \<Rightarrow> Inr (variance r))"

subsection \<open>Agent movement\<close>

definition move_agent :: "GridWorld \<Rightarrow> int \<Rightarrow> coord" where
  "move_agent g action =
     (case state g of (x, y) \<Rightarrow>
        if action = UP \<and> y < height g - 1 \<and> (x, y + 1) \<notin> set (barrier_states g)
          then (x, y + 1)
        else if action = DOWN \<and> y > 0 \<and> (x, y - 1) \<notin> set (barrier_states g)
          then (x, y - 1)
        else if action = LEFT \<and> x > 0 \<and> (x - 1, y) \<notin> set (barrier_states g)
          then (x - 1, y)
        else if action = RIGHT \<and> x < width g - 1 \<and> (x + 1, y) \<notin> set (barrier_states g)
          then (x + 1, y)
        else (x, y))"

text \<open>
  The three neighbouring actions are read first, then the four slots are assigned in
  the order of the source; a later assignment to the same slot overwrites an earlier one.
\<close>

definition set_action_probabilities :: "GridWorld \<Rightarrow> int \<Rightarrow> py_error + real list" where
  "set_action_probabilities g action =
     (if n_actions g = 0 then Inl ZeroDivisionError
      else
        and_then (py_get (actions g) ((action + 1) mod n_actions g)) (\<lambda>right_action.
        and_then (py_get (actions g) ((action - 1) mod n_actions g)) (\<lambda>left_action.
        and_then (py_get (actions g) ((action + 2) mod n_actions g)) (\<lambda>down_action.
        and_then (py_get (transition_probabilities g) 0) (\<lambda>p0.
        and_then (py_set (replicate (nat (n_actions g)) 0) action p0) (\<lambda>probs1.
        and_then (py_get (transition_probabilities g) 1) (\<lambda>p1.
        and_then (py_set probs1 right_action p1) (\<lambda>probs2.
        and_then (py_get (transition_probabilities g) 2) (\<lambda>p2.
        and_then (py_set probs2 left_action p2) (\<lambda>probs3.
        and_then (py_get (transition_probabilities g) 3) (\<lambda>p3.
        py_set probs3 down_action p3)))))))))))"

text \<open>
  \<open>np.random.choice(actions, p=probabilities)\<close> rejects a vector with a negative entry
  or a sum other than 1; what it then draws is the argument \<open>sampled_action\<close> of \<open>step\<close>.
\<close>

definition choice_accepts :: "real list \<Rightarrow> bool" where
  "choice_accepts probabilities =
     (probabilities \<noteq> [] \<and> list_all (\<lambda>p. 0 \<le> p) probabilities \<and> sum_list probabilities = 1)"

text \<open>
  One call of \<open>step\<close>: \<open>sampled_action\<close> is the action the random source draws and
  \<open>seed\<close> the state of the random source when the reward is sampled. The result is the
  returned tuple (without the empty info dictionary) and the updated object.
\<close>

definition step ::
  "GridWorld \<Rightarrow> int \<Rightarrow> int \<Rightarrow> nat \<Rightarrow> py_error + ((int \<times> real \<times> bool) \<times> GridWorld)" where
  "step g input_action sampled_action seed =
     (let current_state = state g in
      and_then (set_action_probabilities g input_action) (\<lambda>probabilities.
        if \<not> choice_accepts probabilities then Inl ValueError
        else
          let new_state = move_agent g sampled_action in
          and_then (get_sampled_reward g seed current_state sampled_action new_state)
            (\<lambda>reward.
              let done = is_terminal_state g new_state;
                  enc = encode_state g new_state
              in Inr ((enc, reward, done),
                      g\<lparr>state := new_state, encoded_state := enc,
                        transitions := transitions g @
                          [(current_state, sampled_action, reward, new_state, done)]\<rparr>))))"

subsection \<open>Weights and feature vectors\<close>

definition same_blocks :: string where
  "same_blocks = ''Same Blocks, Varying Values''"

definition varying_blocks :: string where
  "varying_blocks = ''Varying Blocks, Same Values''"

text \<open>
  Modelled from the spec: \<open>np.unique(self.rewards)\<close> is applied to the grid of reward
  objects, whose class is not among the sources. The spec gives its result as the sorted
  distinct reward values observed in the grid, so a reward object is compared through
  its \<open>value\<close> and the result is the ascending list of the distinct values.
\<close>

definition np_unique :: "StochasticReward list list \<Rightarrow> real list" where
  "np_unique grid = sort (remdups (map value (concat grid)))"

text \<open>The shape of the two-dimensional array \<open>expected_rewards\<close>.\<close>

definition shape0 :: "'a list list \<Rightarrow> int" where
  "shape0 grid = int (length grid)"

definition shape1 :: "'a list list \<Rightarrow> int" where
  "shape1 grid = (case grid of [] \<Rightarrow> 0 | row # _ \<Rightarrow> int (length row))"

text \<open>The loop \<open>for state in range(self.n_states)\<close> of \<open>get_weights\<close>.\<close>

fun weights_loop :: "GridWorld \<Rightarrow> int list \<Rightarrow> real list \<Rightarrow> py_error + real list" where
  "weights_loop g [] ws = Inr ws"
| "weights_loop g (s # ss) ws =
     (case decode_state g s of
        Inl e \<Rightarrow> Inl e
      | Inr (x, y) \<Rightarrow>
          (case py_get2 (expected_rewards g) y x of
             Inl e \<Rightarrow> Inl e
           | Inr v \<Rightarrow>
               (case py_set ws s v of
                  Inl e \<Rightarrow> Inl e
                | Inr ws' \<Rightarrow> weights_loop g ss ws')))"

definition get_weights :: "GridWorld \<Rightarrow> py_error + real list" where
  "get_weights g =
     (if task g = same_blocks then
        (let ws = np_unique (rewards g) in
         case distinct_rewards g of
           None \<Rightarrow> Inl AttributeError
         | Some d \<Rightarrow>
             if int (length ws) < d
             then Inr (replicate (nat (d - int (length ws))) 0 @ ws)
             else Inr ws)
      else
        weights_loop g [0 .. n_states g - 1]
          (replicate (nat (shape0 (expected_rewards g) * shape1 (expected_rewards g))) 0))"

text \<open>
  Under the task \<open>same_blocks\<close> the stored weights are compared with the reward object
  of the destination cell, entry by entry; otherwise the vector is one-hot at the
  encoded destination.
\<close>

definition get_feature_vector ::
  "GridWorld \<Rightarrow> coord \<Rightarrow> int \<Rightarrow> coord \<Rightarrow> py_error + real list" where
  "get_feature_vector g st action next_state =
     (if task g = same_blocks then
        and_then (get_reward g st action next_state) (\<lambda>reward.
          Inr (map (\<lambda>w. if w = value reward then 1 else 0) (weights g)))
      else
        py_set (replicate (nat (n_weights g)) 0) (encode_state g next_state) 1)"

subsection \<open>Construction\<close>

datatype rewards_grid =
    Numbers "real list list"
  | Objects "StochasticReward list list"

text \<open>The arguments of \<open>GridWorld.__init__\<close>; \<open>None\<close> is an argument left out.\<close>

record GridWorld_args =
  arg_height :: int
  arg_width :: "int option"
  arg_actions :: "int list option"
  arg_rewards :: "rewards_grid option"
  arg_proba :: real
  arg_terminal_states :: "coord list option"
  arg_barrier_states :: "coord list option"
  arg_initial_state :: "coord option"
  arg_task :: "string option"
  arg_distinct_rewards :: int

definition within_bounds :: "int \<Rightarrow> int \<Rightarrow> coord \<Rightarrow> bool" where
  "within_bounds w h st = (0 \<le> fst st \<and> fst st < w \<and> 0 \<le> snd st \<and> snd st < h)"

text \<open>
  Lines 46 to 78: the checked dimensions, the actions, the transition probabilities and
  the terminal and barrier lists. The attributes assigned later hold placeholders.
\<close>

definition init_grid :: "GridWorld_args \<Rightarrow> py_error + GridWorld" where
  "init_grid a =
     (if \<not> 0 < arg_height a then Inl AssertionError
      else if (case arg_width a of Some w \<Rightarrow> \<not> 0 < w | None \<Rightarrow> False) then Inl AssertionError
      else
        let h = arg_height a;
            w = (case arg_width a of Some w \<Rightarrow> w | None \<Rightarrow> h);
            acts = (case arg_actions a of Some xs \<Rightarrow> xs | None \<Rightarrow> [UP, RIGHT, DOWN, LEFT]);
            n = int (length acts);
            p = arg_proba a
        in
          if \<not> (0 \<le> p \<and> p \<le> 1) then Inl AssertionError
          else if n - 2 = 0 then Inl ZeroDivisionError
          else if (case arg_terminal_states a of
                     Some ts \<Rightarrow> \<not> list_all (within_bounds w h) ts | None \<Rightarrow> False)
            then Inl AssertionError
          else if (case arg_barrier_states a of
                     Some bs \<Rightarrow> \<not> list_all (within_bounds w h) bs | None \<Rightarrow> False)
            then Inl AssertionError
          else
            Inr \<lparr>height = h, width = w, actions = acts,
                 n_states = h * w, n_actions = n,
                 transition_probabilities =
                   [p] @ replicate (nat (n - 2)) ((1 - p) / real_of_int (n - 2)) @ [0],
                 terminal_states = (case arg_terminal_states a of Some ts \<Rightarrow> ts | None \<Rightarrow> []),
                 barrier_states = (case arg_barrier_states a of Some bs \<Rightarrow> bs | None \<Rightarrow> []),
                 initial_state = arg_initial_state a,
                 rewards = [], expected_rewards = [], encoded_state = 0, state = (0, 0),
                 transitions = [], task = [], distinct_rewards = None, weights = [],
                 n_weights = 0, barrier_set = [], danger_sets = []\<rparr>)"

text \<open>The assignment \<open>grid[r][c] = v\<close> on a list of rows.\<close>

definition py_set2 :: "'a list list \<Rightarrow> int \<Rightarrow> int \<Rightarrow> 'a \<Rightarrow> py_error + 'a list list" where
  "py_set2 grid r c v =
     and_then (py_get grid r) (\<lambda>row.
     and_then (py_set row c v) (\<lambda>row'. py_set grid r row'))"

text \<open>The loop that gives every listed terminal state the reward 0.\<close>

fun zero_terminals ::
  "StochasticReward list list \<Rightarrow> coord list \<Rightarrow> py_error + StochasticReward list list" where
  "zero_terminals grid [] = Inr grid"
| "zero_terminals grid ((x, y) # ts) =
     (case py_set2 grid y x (deterministic_reward 0) of
        Inl e \<Rightarrow> Inl e
      | Inr grid' \<Rightarrow> zero_terminals grid' ts)"

definition has_shape :: "'a list list \<Rightarrow> int \<Rightarrow> int \<Rightarrow> bool" where
  "has_shape grid h w = (int (length grid) = h \<and> list_all (\<lambda>row. int (length row) = w) grid)"

text \<open>
  Lines 81 to 100: the reward grid and the array of expected rewards, whose shape is
  asserted. A grid whose rows differ in length has no such shape and is rejected as well.
\<close>

definition init_rewards :: "GridWorld_args \<Rightarrow> GridWorld \<Rightarrow> py_error + GridWorld" where
  "init_rewards a g =
     and_then
       (case arg_rewards a of
          None \<Rightarrow>
            (let base = replicate (nat (height g))
                          (replicate (nat (width g)) (deterministic_reward (- 1)))
             in if terminal_states g \<noteq> [] then
                  and_then (zero_terminals base (terminal_states g))
                    (\<lambda>grid. Inr (g\<lparr>rewards := grid\<rparr>))
                else
                  and_then (py_set2 base (height g - 1) (width g - 1) (deterministic_reward 0))
                    (\<lambda>grid. Inr (g\<lparr>rewards := grid,
                                   terminal_states := [(height g - 1, width g - 1)]\<rparr>)))
        | Some (Numbers rows) \<Rightarrow> Inr (g\<lparr>rewards := map (map deterministic_reward) rows\<rparr>)
        | Some (Objects rows) \<Rightarrow> Inr (g\<lparr>rewards := rows\<rparr>))
       (\<lambda>g1.
          let er = map (map expected_value) (rewards g1) in
          if has_shape er (height g1) (width g1)
          then Inr (g1\<lparr>expected_rewards := er\<rparr>)
          else Inl AssertionError)"

text \<open>Lines 103 and 104: the first reset, and the state decoded back from its result.\<close>

definition init_state :: "GridWorld \<Rightarrow> (nat \<times> nat) list \<Rightarrow> py_error + GridWorld" where
  "init_state g draws =
     and_then (reset g draws) (\<lambda>(enc, g1).
     and_then (decode_state g1 enc) (\<lambda>st.
       Inr (g1\<lparr>encoded_state := enc, state := st\<rparr>)))"

text \<open>Lines 107 to 114: the task, the weights and their number.\<close>

definition init_features :: "GridWorld_args \<Rightarrow> GridWorld \<Rightarrow> py_error + GridWorld" where
  "init_features a g =
     (let g1 = g\<lparr>transitions := [],
                 task := (case arg_task a of Some t \<Rightarrow> t | None \<Rightarrow> varying_blocks)\<rparr>;
          g2 = (if arg_task a = Some same_blocks
                then g1\<lparr>distinct_rewards := Some (arg_distinct_rewards a)\<rparr> else g1)
      in and_then (get_weights g2) (\<lambda>ws.
           Inr (g2\<lparr>weights := ws, n_weights := int (length ws)\<rparr>)))"

text \<open>
  Lines 116 to 120: every encoded state whose expected self-transition reward is
  negative joins the barrier set.
\<close>

fun barrier_loop :: "GridWorld \<Rightarrow> int list \<Rightarrow> int list \<Rightarrow> py_error + int list" where
  "barrier_loop g [] acc = Inr acc"
| "barrier_loop g (s # ss) acc =
     (case decode_state g s of
        Inl e \<Rightarrow> Inl e
      | Inr st \<Rightarrow>
          (case get_expected_reward g st 0 st of
             Inl e \<Rightarrow> Inl e
           | Inr r \<Rightarrow> barrier_loop g ss (if r < 0 \<and> s \<notin> set acc then acc @ [s] else acc)))"

text \<open>Lines 116 to 126: the barrier set and one singleton danger set per element.\<close>

definition init_barrier_set :: "GridWorld \<Rightarrow> py_error + GridWorld" where
  "init_barrier_set g =
     and_then (barrier_loop g [0 .. n_states g - 1] []) (\<lambda>bs.
       Inr (g\<lparr>barrier_set := bs, danger_sets := map (\<lambda>element. {element}) bs\<rparr>))"

text \<open>
  \<open>GridWorld.__init__\<close> up to line 114, before the barrier set is computed; \<open>draws\<close>
  are the random draws its call of \<open>reset\<close> may use.
\<close>

definition init_before_barrier_set ::
  "GridWorld_args \<Rightarrow> (nat \<times> nat) list \<Rightarrow> py_error + GridWorld" where
  "init_before_barrier_set a draws =
     and_then (init_grid a) (\<lambda>g0.
     and_then (init_rewards a g0) (\<lambda>g1.
     and_then (init_state g1 draws) (\<lambda>g2.
       init_features a g2)))"

text \<open>The whole of \<open>GridWorld.__init__\<close>.\<close>

definition GridWorld_init :: "GridWorld_args \<Rightarrow> (nat \<times> nat) list \<Rightarrow> py_error + GridWorld" where
  "GridWorld_init a draws =
     and_then (init_before_barrier_set a draws) init_barrier_set"

subsection \<open>Notions the properties speak of\<close>

text \<open>The cell one step away from \<open>st\<close> in the direction of an action.\<close>

definition destination :: "coord \<Rightarrow> int \<Rightarrow> coord" where
  "destination st action =
     (if action = UP then (fst st, snd st + 1)
      else if action = DOWN then (fst st, snd st - 1)
      else if action = LEFT then (fst st - 1, snd st)
      else if action = RIGHT then (fst st + 1, snd st)
      else st)"

text \<open>A destination is blocked when it is off the grid or a configured barrier.\<close>

definition blocked :: "GridWorld \<Rightarrow> coord \<Rightarrow> bool" where
  "blocked g d = (\<not> within_bounds (width g) (height g) d \<or> d \<in> set (barrier_states g))"

text \<open>
  The coordinates the agent has after each of a sequence of \<open>step\<close> calls, each given by
  its intended action, the action drawn and the seed of the reward draw; the sequence
  ends at the first call that raises.
\<close>

fun post_step_coordinates :: "GridWorld \<Rightarrow> (int \<times> int \<times> nat) list \<Rightarrow> coord list" where
  "post_step_coordinates g [] = []"
| "post_step_coordinates g ((input_action, sampled_action, seed) # calls) =
     (case step g input_action sampled_action seed of
        Inl e \<Rightarrow> []
      | Inr (res, g') \<Rightarrow> state g' # post_step_coordinates g' calls)"

text \<open>An episode: \<open>reset\<close>, then the \<open>step\<close> calls.\<close>

definition episode_coordinates ::
  "GridWorld \<Rightarrow> (nat \<times> nat) list \<Rightarrow> (int \<times> int \<times> nat) list \<Rightarrow> coord list" where
  "episode_coordinates g draws calls =
     (case reset g draws of
        Inl e \<Rightarrow> []
      | Inr (enc, g0) \<Rightarrow> post_step_coordinates g0 calls)"

subsection \<open>Example configurations\<close>

text \<open>Scenario 1 of the spec: a 3 by 3 grid with every other argument left out.\<close>

definition scenario1 :: GridWorld_args where
  "scenario1 =
     \<lparr>arg_height = 3, arg_width = None, arg_actions = None, arg_rewards = None,
      arg_proba = 1, arg_terminal_states = None, arg_barrier_states = None,
      arg_initial_state = None, arg_task = None, arg_distinct_rewards = 3\<rparr>"

text \<open>Scenario 3 of the spec: a barrier at (1, 2) and the agent started at (1, 1).\<close>

definition scenario3 :: GridWorld_args where
  "scenario3 =
     scenario1\<lparr>arg_barrier_states := Some [(1, 2)], arg_initial_state := Some (1, 1)\<rparr>"

text \<open>Scenario 4 of the spec: the second task over a grid of the values -1 and 0.\<close>

definition scenario4 :: GridWorld_args where
  "scenario4 =
     scenario1\<lparr>arg_height := 2, arg_rewards := Some (Numbers [[- 1, - 1], [- 1, 0]]),
       arg_terminal_states := Some [(1, 1)], arg_initial_state := Some (0, 0),
       arg_task := Some same_blocks\<rparr>"

text \<open>A grid with a barrier in the corner (0, 0), the only cell the draws of reset offer.\<close>

definition corner_barrier :: GridWorld_args where
  "corner_barrier = scenario1\<lparr>arg_barrier_states := Some [(0, 0)]\<rparr>"

text \<open>Grids that are not square: 2 columns and 3 rows, and 3 columns and 2 rows.\<close>

definition tall_grid :: GridWorld_args where
  "tall_grid = scenario1\<lparr>arg_width := Some 2, arg_initial_state := Some (0, 2)\<rparr>"

definition wide_grid :: GridWorld_args where
  "wide_grid =
     scenario1\<lparr>arg_height := 2, arg_width := Some 3, arg_initial_state := Some (0, 0),
       arg_task := Some same_blocks\<rparr>"

text \<open>The agent started one cell below the default terminal corner of a 3 by 3 grid.\<close>

definition near_goal :: GridWorld_args where
  "near_goal = scenario1\<lparr>arg_initial_state := Some (2, 1)\<rparr>"

text \<open>The objects these arguments construct.\<close>

definition scenario1_world :: GridWorld where
  "scenario1_world = projr (GridWorld_init scenario1 [(0, 0)])"

definition scenario3_world :: GridWorld where
  "scenario3_world = projr (GridWorld_init scenario3 [])"

definition scenario4_world :: GridWorld where
  "scenario4_world = projr (GridWorld_init scenario4 [])"

definition near_goal_world :: GridWorld where
  "near_goal_world = projr (GridWorld_init near_goal [])"

definition corner_barrier_world :: GridWorld where
  "corner_barrier_world = projr (GridWorld_init corner_barrier [(0, 0)])"

text \<open>Scenario 3 with the default probability 0.8 of the intended action.\<close>

definition drift :: GridWorld_args where
  "drift = scenario3\<lparr>arg_proba := 4 / 5\<rparr>"

section \<open>Properties\<close>

subsection \<open>Auxiliary facts\<close>

lemma and_then_Inr: "and_then m f = Inr y \<longleftrightarrow> (\<exists>x. m = Inr x \<and> f x = Inr y)"
  by (cases m) (simp_all add: and_then_def)

lemma not_isl_projr: "\<not> isl m \<Longrightarrow> m = Inr (projr m)"
  by (cases m) simp_all

lemma step_Inr:
  assumes "step g ia sa seed = Inr (res, g')"
  shows "state g' = move_agent g sa"
    and "terminal_states g' = terminal_states g"
    and "barrier_states g' = barrier_states g"
    and "height g' = height g" and "width g' = width g"
    and "snd (snd res) = is_terminal_state g (move_agent g sa)"
    and "get_sampled_reward g seed (state g) sa (move_agent g sa) = Inr (fst (snd res))"
    and "fst res = encode_state g (move_agent g sa)"
  using assms
  by (auto simp: step_def Let_def and_then_Inr split: if_splits)

lemma reset_Inr:
  assumes "reset g draws = Inr (enc, g0)"
  shows "barrier_states g0 = barrier_states g" and "terminal_states g0 = terminal_states g"
    and "enc = encode_state g (state g0)" and "width g0 = width g" and "height g0 = height g"
  using assms by (auto simp: reset_def split: sum.splits option.splits)

lemma init_grid_Inr:
  assumes "init_grid a = Inr g"
  shows "height g = arg_height a"
    and "width g = (case arg_width a of Some w \<Rightarrow> w | None \<Rightarrow> arg_height a)"
    and "0 < height g" and "0 < width g"
    and "n_states g = height g * width g"
    and "actions g = (case arg_actions a of Some xs \<Rightarrow> xs | None \<Rightarrow> [UP, RIGHT, DOWN, LEFT])"
    and "n_actions g = int (length (actions g))"
    and "transition_probabilities g =
           [arg_proba a] @ replicate (nat (n_actions g - 2))
              ((1 - arg_proba a) / real_of_int (n_actions g - 2)) @ [0]"
    and "0 \<le> arg_proba a" and "arg_proba a \<le> 1"
    and "terminal_states g = (case arg_terminal_states a of Some ts \<Rightarrow> ts | None \<Rightarrow> [])"
    and "barrier_states g = (case arg_barrier_states a of Some bs \<Rightarrow> bs | None \<Rightarrow> [])"
    and "initial_state g = arg_initial_state a"
  using assms
  by (auto simp: init_grid_def Let_def split: if_splits option.splits)

lemma has_shape_map: "has_shape (map (map f) grid) h w = has_shape grid h w"
  by (simp add: has_shape_def list_all_iff)

lemma init_rewards_Inr:
  assumes "init_rewards a g = Inr g1"
  shows "height g1 = height g" and "width g1 = width g" and "n_states g1 = n_states g"
    and "actions g1 = actions g" and "n_actions g1 = n_actions g"
    and "transition_probabilities g1 = transition_probabilities g"
    and "barrier_states g1 = barrier_states g" and "initial_state g1 = initial_state g"
    and "expected_rewards g1 = map (map expected_value) (rewards g1)"
    and "has_shape (rewards g1) (height g) (width g)"
  using assms
  by (auto simp: init_rewards_def Let_def and_then_Inr has_shape_map
      split: if_splits option.splits rewards_grid.splits)

lemma init_state_Inr:
  assumes "init_state g draws = Inr g1"
  shows "height g1 = height g" and "width g1 = width g" and "n_states g1 = n_states g"
    and "actions g1 = actions g" and "n_actions g1 = n_actions g"
    and "transition_probabilities g1 = transition_probabilities g"
    and "barrier_states g1 = barrier_states g" and "terminal_states g1 = terminal_states g"
    and "rewards g1 = rewards g" and "expected_rewards g1 = expected_rewards g"
  using assms
  by (auto simp: init_state_def reset_def and_then_Inr split: sum.splits option.splits)

lemma init_features_Inr:
  assumes "init_features a g = Inr g1"
  shows "height g1 = height g" and "width g1 = width g" and "n_states g1 = n_states g"
    and "actions g1 = actions g" and "n_actions g1 = n_actions g"
    and "transition_probabilities g1 = transition_probabilities g"
    and "barrier_states g1 = barrier_states g" and "terminal_states g1 = terminal_states g"
    and "rewards g1 = rewards g" and "expected_rewards g1 = expected_rewards g"
    and "state g1 = state g"
    and "task g1 = (case arg_task a of Some t \<Rightarrow> t | None \<Rightarrow> varying_blocks)"
    and "n_weights g1 = int (length (weights g1))"
  using assms
  by (auto simp: init_features_def Let_def and_then_Inr split: if_splits)

lemma init_barrier_set_Inr:
  assumes "init_barrier_set g = Inr g1"
  shows "height g1 = height g" and "width g1 = width g" and "n_states g1 = n_states g"
    and "actions g1 = actions g" and "n_actions g1 = n_actions g"
    and "transition_probabilities g1 = transition_probabilities g"
    and "barrier_states g1 = barrier_states g" and "terminal_states g1 = terminal_states g"
    and "rewards g1 = rewards g" and "expected_rewards g1 = expected_rewards g"
    and "state g1 = state g" and "task g1 = task g" and "weights g1 = weights g"
    and "n_weights g1 = n_weights g" and "distinct_rewards g1 = distinct_rewards g"
    and "\<exists>bs. barrier_loop g [0 .. n_states g - 1] [] = Inr bs"
  using assms
  by (auto simp: init_barrier_set_def and_then_Inr)

lemma py_get_nonneg:
  "0 \<le> i \<Longrightarrow> py_get xs i = (if i < int (length xs) then Inr (xs ! nat i) else Inl IndexError)"
  by (simp add: py_get_def py_index_def)

lemma py_set_nonneg:
  "0 \<le> i \<Longrightarrow> py_set xs i v = (if i < int (length xs) then Inr (xs[nat i := v]) else Inl IndexError)"
  by (simp add: py_set_def py_index_def)

lemma py_get2_shape:
  assumes "has_shape grid h w" and "0 \<le> r" and "0 \<le> c"
  shows "py_get2 grid r c = (if r < h \<and> c < w then Inr (grid ! nat r ! nat c) else Inl IndexError)"
proof (cases "r < h")
  case True
  with assms have "nat r < length grid" by (auto simp: has_shape_def)
  then have "int (length (grid ! nat r)) = w"
    using assms(1) by (simp add: has_shape_def list_all_length)
  with True assms show ?thesis
    by (simp add: py_get2_def py_get_nonneg has_shape_def)
next
  case False
  with assms show ?thesis
    by (simp add: py_get2_def py_get_nonneg has_shape_def)
qed

lemma decode_state_pos:
  "0 < width g \<Longrightarrow> decode_state g s = Inr (s div width g, s mod width g)"
  by (simp add: decode_state_def)

lemma barrier_loop_access:
  "barrier_loop g ss acc = Inr bs \<Longrightarrow> s \<in> set ss \<Longrightarrow>
     \<exists>st v. decode_state g s = Inr st \<and> get_expected_reward g st 0 st = Inr v"
proof (induction ss arbitrary: acc)
  case Nil
  then show ?case by simp
next
  case (Cons t ss)
  then show ?case
    by (auto split: sum.splits)
qed

lemma barrier_loop_total:
  "(\<And>s. s \<in> set ss \<Longrightarrow> \<exists>st v. decode_state g s = Inr st \<and> get_expected_reward g st 0 st = Inr v)
   \<Longrightarrow> \<exists>bs. barrier_loop g ss acc = Inr bs"
proof (induction ss arbitrary: acc)
  case Nil
  then show ?case by simp
next
  case (Cons t ss)
  obtain st v where "decode_state g t = Inr st" "get_expected_reward g st 0 st = Inr v"
    using Cons.prems[of t] by auto
  moreover have "\<exists>bs. barrier_loop g ss acc' = Inr bs" for acc'
    using Cons.IH Cons.prems by simp
  ultimately show ?case by simp
qed

lemma cell_access:
  assumes "0 < width g" and "has_shape (rewards g) (height g) (width g)" and "0 \<le> s"
  shows "(\<exists>st v. decode_state g s = Inr st \<and> get_expected_reward g st 0 st = Inr v)
         \<longleftrightarrow> s mod width g < height g \<and> s div width g < width g"
proof -
  have "0 \<le> s mod width g" "0 \<le> s div width g" using assms(1,3) by (simp_all add: pos_imp_zdiv_nonneg_iff)
  then show ?thesis
    using assms(1) py_get2_shape[OF assms(2), of "s mod width g" "s div width g"]
    by (auto simp: decode_state_pos get_expected_reward_def split: sum.splits)
qed

lemma square_in_bounds:
  fixes w s :: int
  assumes "0 < w" and "0 \<le> s" and "s < w * w"
  shows "s mod w < w \<and> s div w < w"
proof -
  have "s div w < w"
  proof (rule ccontr)
    assume "\<not> s div w < w"
    then have "w * w \<le> w * (s div w)" using assms(1) by (intro mult_left_mono) auto
    moreover have "w * (s div w) + s mod w = s" by simp
    moreover have "0 \<le> s mod w" using assms(1) by simp
    ultimately show False using assms(3) by linarith
  qed
  then show ?thesis using assms(1) by simp
qed

lemma nonsquare_out_of_bounds:
  fixes h w :: int
  assumes "0 < h" and "0 < w" and "h \<noteq> w"
  shows "\<exists>s. 0 \<le> s \<and> s < h * w \<and> \<not> (s mod w < h \<and> s div w < w)"
proof (cases "h < w")
  case True
  have "h * 2 \<le> h * w" using True assms(1) by (intro mult_left_mono) auto
  then have "h < h * w" using assms(1) by linarith
  moreover have "h mod w = h" using True assms(1) by simp
  ultimately show ?thesis using assms(1) by (intro exI[of _ h]) simp
next
  case False
  then have "w < h" using assms(3) by simp
  then have "w * w < h * w" using assms(2) by simp
  moreover have "(w * w) div w = w" using assms(2) by simp
  ultimately show ?thesis using assms(2) by (intro exI[of _ "w * w"]) simp
qed

lemma weights_loop_cong:
  "width g' = width g \<Longrightarrow> expected_rewards g' = expected_rewards g \<Longrightarrow>
     weights_loop g' ss ws = weights_loop g ss ws"
  by (induction ss arbitrary: ws) (auto simp: decode_state_def split: sum.splits)

lemma get_weights_cong:
  assumes "task g' = task g" and "rewards g' = rewards g"
    and "distinct_rewards g' = distinct_rewards g" and "n_states g' = n_states g"
    and "expected_rewards g' = expected_rewards g" and "width g' = width g"
  shows "get_weights g' = get_weights g"
  using assms weights_loop_cong[OF assms(6,5)] by (simp add: get_weights_def)

lemma init_features_weights:
  assumes "init_features a g = Inr g1"
  shows "get_weights g1 = Inr (weights g1)"
proof -
  from assms obtain g2 ws where g2: "get_weights g2 = Inr ws"
    and g1: "g1 = g2\<lparr>weights := ws, n_weights := int (length ws)\<rparr>"
    by (auto simp: init_features_def Let_def and_then_Inr)
  have "get_weights g1 = get_weights g2"
    by (rule get_weights_cong) (simp_all add: g1)
  with g2 g1 show ?thesis by simp
qed

lemma init_before_barrier_set_Inr:
  assumes "init_before_barrier_set a draws = Inr g"
  shows "height g = arg_height a"
    and "width g = (case arg_width a of Some w \<Rightarrow> w | None \<Rightarrow> arg_height a)"
    and "0 < height g" and "0 < width g"
    and "n_states g = height g * width g"
    and "actions g = (case arg_actions a of Some xs \<Rightarrow> xs | None \<Rightarrow> [UP, RIGHT, DOWN, LEFT])"
    and "n_actions g = int (length (actions g))"
    and "transition_probabilities g =
           [arg_proba a] @ replicate (nat (n_actions g - 2))
              ((1 - arg_proba a) / real_of_int (n_actions g - 2)) @ [0]"
    and "0 \<le> arg_proba a" and "arg_proba a \<le> 1"
    and "barrier_states g = (case arg_barrier_states a of Some bs \<Rightarrow> bs | None \<Rightarrow> [])"
    and "has_shape (rewards g) (height g) (width g)"
    and "expected_rewards g = map (map expected_value) (rewards g)"
    and "task g = (case arg_task a of Some t \<Rightarrow> t | None \<Rightarrow> varying_blocks)"
    and "n_weights g = int (length (weights g))"
    and "get_weights g = Inr (weights g)"
proof -
  from assms obtain g0 g1 g2 where 0: "init_grid a = Inr g0"
    and 1: "init_rewards a g0 = Inr g1" and 2: "init_state g1 draws = Inr g2"
    and 3: "init_features a g2 = Inr g"
    by (auto simp: init_before_barrier_set_def and_then_Inr)
  note f0 = init_grid_Inr[OF 0] and f1 = init_rewards_Inr[OF 1]
    and f2 = init_state_Inr[OF 2] and f3 = init_features_Inr[OF 3]
  show "height g = arg_height a" using f0(1) f1(1) f2(1) f3(1) by simp
  show "width g = (case arg_width a of Some w \<Rightarrow> w | None \<Rightarrow> arg_height a)"
    using f0(2) f1(2) f2(2) f3(2) by simp
  show "0 < height g" using f0(3) f1(1) f2(1) f3(1) by simp
  show "0 < width g" using f0(4) f1(2) f2(2) f3(2) by simp
  show "n_states g = height g * width g"
    using f0(5) f1(1,2,3) f2(1,2,3) f3(1,2,3) by simp
  show a: "actions g = (case arg_actions a of Some xs \<Rightarrow> xs | None \<Rightarrow> [UP, RIGHT, DOWN, LEFT])"
    using f0(6) f1(4) f2(4) f3(4) by simp
  show n: "n_actions g = int (length (actions g))"
    using f0(7) f1(4,5) f2(4,5) f3(4,5) by simp
  have "n_actions g = n_actions g0" using f1(5) f2(5) f3(5) by simp
  then show "transition_probabilities g =
           [arg_proba a] @ replicate (nat (n_actions g - 2))
              ((1 - arg_proba a) / real_of_int (n_actions g - 2)) @ [0]"
    using f0(8) f1(6) f2(6) f3(6) by simp
  show "0 \<le> arg_proba a" "arg_proba a \<le> 1" using f0(9,10) by simp_all
  show "barrier_states g = (case arg_barrier_states a of Some bs \<Rightarrow> bs | None \<Rightarrow> [])"
    using f0(12) f1(7) f2(7) f3(7) by simp
  show "has_shape (rewards g) (height g) (width g)"
    using f1(1,2,10) f2(1,2,9) f3(1,2,9) by simp
  show "expected_rewards g = map (map expected_value) (rewards g)"
    using f1(9) f2(9,10) f3(9,10) by simp
  show "task g = (case arg_task a of Some t \<Rightarrow> t | None \<Rightarrow> varying_blocks)"
    using f3(12) .
  show "n_weights g = int (length (weights g))" using f3(13) .
  show "get_weights g = Inr (weights g)" using init_features_weights[OF 3] .
qed

lemma barrier_loop_square:
  assumes "0 < height g" and "0 < width g"
    and "has_shape (rewards g) (height g) (width g)"
    and "n_states g = height g * width g"
    and "barrier_loop g [0 .. n_states g - 1] [] = Inr bs"
  shows "height g = width g"
proof (rule ccontr)
  assume "height g \<noteq> width g"
  from nonsquare_out_of_bounds[OF assms(1,2) this]
  obtain s where s: "0 \<le> s" "s < height g * width g"
    and out: "\<not> (s mod width g < height g \<and> s div width g < width g)" by blast
  from s assms(4) have "s \<in> set [0 .. n_states g - 1]" by simp
  from barrier_loop_access[OF assms(5) this] cell_access[OF assms(2,3) s(1)] out
  show False by blast
qed

lemma GridWorld_init_Inr:
  assumes "GridWorld_init a draws = Inr g"
  shows "height g = arg_height a"
    and "width g = (case arg_width a of Some w \<Rightarrow> w | None \<Rightarrow> arg_height a)"
    and "0 < height g" and "0 < width g"
    and "n_states g = height g * width g"
    and "actions g = (case arg_actions a of Some xs \<Rightarrow> xs | None \<Rightarrow> [UP, RIGHT, DOWN, LEFT])"
    and "n_actions g = int (length (actions g))"
    and "transition_probabilities g =
           [arg_proba a] @ replicate (nat (n_actions g - 2))
              ((1 - arg_proba a) / real_of_int (n_actions g - 2)) @ [0]"
    and "0 \<le> arg_proba a" and "arg_proba a \<le> 1"
    and "barrier_states g = (case arg_barrier_states a of Some bs \<Rightarrow> bs | None \<Rightarrow> [])"
    and "has_shape (rewards g) (height g) (width g)"
    and "expected_rewards g = map (map expected_value) (rewards g)"
    and "task g = (case arg_task a of Some t \<Rightarrow> t | None \<Rightarrow> varying_blocks)"
    and "n_weights g = int (length (weights g))"
    and "get_weights g = Inr (weights g)"
    and "height g = width g"
proof -
  from assms obtain g3 where 3: "init_before_barrier_set a draws = Inr g3"
    and 4: "init_barrier_set g3 = Inr g"
    by (auto simp: GridWorld_init_def and_then_Inr)
  note f3 = init_before_barrier_set_Inr[OF 3] and f4 = init_barrier_set_Inr[OF 4]
  show "height g = arg_height a" using f3(1) f4(1) by simp
  show "width g = (case arg_width a of Some w \<Rightarrow> w | None \<Rightarrow> arg_height a)"
    using f3(2) f4(2) by simp
  show "0 < height g" using f3(3) f4(1) by simp
  show "0 < width g" using f3(4) f4(2) by simp
  show "n_states g = height g * width g" using f3(5) f4(1,2,3) by simp
  show "actions g = (case arg_actions a of Some xs \<Rightarrow> xs | None \<Rightarrow> [UP, RIGHT, DOWN, LEFT])"
    using f3(6) f4(4) by simp
  show "n_actions g = int (length (actions g))" using f3(7) f4(4,5) by simp
  show "transition_probabilities g =
           [arg_proba a] @ replicate (nat (n_actions g - 2))
              ((1 - arg_proba a) / real_of_int (n_actions g - 2)) @ [0]"
    using f3(8) f4(5,6) by simp
  show "0 \<le> arg_proba a" "arg_proba a \<le> 1" using f3(9,10) by simp_all
  show "barrier_states g = (case arg_barrier_states a of Some bs \<Rightarrow> bs | None \<Rightarrow> [])"
    using f3(11) f4(7) by simp
  show "has_shape (rewards g) (height g) (width g)" using f3(12) f4(1,2,9) by simp
  show "expected_rewards g = map (map expected_value) (rewards g)"
    using f3(13) f4(9,10) by simp
  show "task g = (case arg_task a of Some t \<Rightarrow> t | None \<Rightarrow> varying_blocks)"
    using f3(14) f4(12) by simp
  show "n_weights g = int (length (weights g))" using f3(15) f4(13,14) by simp
  have "get_weights g = get_weights g3"
    by (rule get_weights_cong) (simp_all add: f4)
  then show "get_weights g = Inr (weights g)" using f3(16) f4(13) by simp
  from f4(16) obtain bs where "barrier_loop g3 [0 .. n_states g3 - 1] [] = Inr bs" by blast
  from barrier_loop_square[OF f3(3,4,12,5) this]
  show "height g = width g" using f4(1,2) by simp
qed

subsection \<open>Termination flag\<close>

text \<open>
  Claim C6. Whenever \<open>step\<close> returns, the returned \<open>done\<close> flag is true exactly when
  the coordinate \<open>move_agent\<close> resolved for the drawn action is in the
  \<open>terminal_states\<close> of the object the call was made on. The call leaves the agent at
  that coordinate and leaves \<open>terminal_states\<close> as it was, so the step that reaches a
  terminal coordinate returns \<open>done = True\<close>, and no other step does.
\<close>

theorem step_done_iff_terminal:
  "step g input_action sampled_action seed = Inr ((enc, reward, done), g') \<Longrightarrow>
     done = (move_agent g sampled_action \<in> set (terminal_states g)) \<and>
     state g' = move_agent g sampled_action \<and>
     terminal_states g' = terminal_states g \<and>
     done = (state g' \<in> set (terminal_states g'))"
  using step_Inr[of g input_action sampled_action seed "(enc, reward, done)" g']
  by (simp add: is_terminal_state_def)

theorem step_done_iff_terminal_witness:
  "\<not> isl (GridWorld_init near_goal []) \<and> \<not> isl (GridWorld_init scenario3 [])
   \<and> terminal_states near_goal_world = [(2, 2)]
   \<and> terminal_states scenario3_world = [(2, 2)]
   \<and> \<not> isl (step near_goal_world UP UP 0)
   \<and> move_agent near_goal_world UP = (2, 2)
   \<and> snd (snd (fst (projr (step near_goal_world UP UP 0)))) = True
   \<and> state (snd (projr (step near_goal_world UP UP 0))) = (2, 2)
   \<and> terminal_states (snd (projr (step near_goal_world UP UP 0))) = [(2, 2)]
   \<and> \<not> isl (step scenario3_world RIGHT RIGHT 0)
   \<and> move_agent scenario3_world RIGHT = (2, 1)
   \<and> snd (snd (fst (projr (step scenario3_world RIGHT RIGHT 0)))) = False
   \<and> state (snd (projr (step scenario3_world RIGHT RIGHT 0))) = (2, 1)
   \<and> terminal_states (snd (projr (step scenario3_world RIGHT RIGHT 0))) = [(2, 2)]"
proof -
  let ?r = "projr (step near_goal_world UP UP 0)"
  let ?q = "projr (step scenario3_world RIGHT RIGHT 0)"
  have c1: "\<not> isl (GridWorld_init near_goal [])" by code_simp
  have c2: "\<not> isl (GridWorld_init scenario3 [])" by code_simp
  have t1: "terminal_states near_goal_world = [(2, 2)]" by code_simp
  have t2: "terminal_states scenario3_world = [(2, 2)]" by code_simp
  have ok1: "\<not> isl (step near_goal_world UP UP 0)" by code_simp
  have ok2: "\<not> isl (step scenario3_world RIGHT RIGHT 0)" by code_simp
  have eq1: "step near_goal_world UP UP 0
            = Inr ((fst (fst ?r), fst (snd (fst ?r)), snd (snd (fst ?r))), snd ?r)"
    using not_isl_projr[OF ok1] by simp
  have eq2: "step scenario3_world RIGHT RIGHT 0
            = Inr ((fst (fst ?q), fst (snd (fst ?q)), snd (snd (fst ?q))), snd ?q)"
    using not_isl_projr[OF ok2] by simp
  have m1: "move_agent near_goal_world UP = (2, 2)" by code_simp
  have m2: "move_agent scenario3_world RIGHT = (2, 1)" by code_simp
  note th1 = step_done_iff_terminal[OF eq1]
  note th2 = step_done_iff_terminal[OF eq2]
  have d1: "snd (snd (fst ?r)) = True" using th1 m1 t1 by simp
  have d2: "snd (snd (fst ?q)) = False" using th2 m2 t2 by simp
  have s1: "state (snd ?r) = (2, 2)" using th1 m1 by simp
  have s2: "state (snd ?q) = (2, 1)" using th2 m2 by simp
  have u1: "terminal_states (snd ?r) = [(2, 2)]" using th1 t1 by simp
  have u2: "terminal_states (snd ?q) = [(2, 2)]" using th2 t2 by simp
  from c1 c2 t1 t2 ok1 ok2 m1 m2 d1 d2 s1 s2 u1 u2 show ?thesis by blast
qed

subsection \<open>Reward queries\<close>

text \<open>
  Claim C9. For a destination cell \<open>next_state\<close>, each of the four reward queries
  returns the same result (a value or the same exception) whatever the \<open>state\<close> and
  \<open>action\<close> arguments are; the sampled reward is compared under the same state of the
  random source.
\<close>

theorem reward_queries_ignore_origin:
  "get_sampled_reward g seed st action next_state
     = get_sampled_reward g seed st' action' next_state
   \<and> get_expected_reward g st action next_state
     = get_expected_reward g st' action' next_state
   \<and> get_expected_reward_squared g st action next_state
     = get_expected_reward_squared g st' action' next_state
   \<and> get_reward_variance g st action next_state
     = get_reward_variance g st' action' next_state"
  by (simp add: get_sampled_reward_def get_expected_reward_def
      get_expected_reward_squared_def get_reward_variance_def)

subsection \<open>Barriers\<close>

lemma move_agent_cases:
  "move_agent g a = state g \<or> move_agent g a \<notin> set (barrier_states g)"
  by (cases "state g") (simp add: move_agent_def)

lemma post_step_not_barrier:
  "state g \<notin> set (barrier_states g) \<Longrightarrow>
   c \<in> set (post_step_coordinates g calls) \<Longrightarrow> c \<notin> set (barrier_states g)"
proof (induction calls arbitrary: g)
  case Nil
  then show ?case by simp
next
  case (Cons call calls)
  obtain ia sa seed where call: "call = (ia, sa, seed)" by (cases call) auto
  show ?case
  proof (cases "step g ia sa seed")
    case (Inl e)
    with Cons.prems call show ?thesis by simp
  next
    case (Inr r)
    obtain res g' where r: "r = (res, g')" by (cases r) auto
    from Inr r have st: "step g ia sa seed = Inr (res, g')" by simp
    have s': "state g' = move_agent g sa" and b': "barrier_states g' = barrier_states g"
      using step_Inr[OF st] by simp_all
    have nb: "state g' \<notin> set (barrier_states g')"
      using move_agent_cases[of g sa] Cons.prems(1) s' b' by auto
    from Cons.prems(2) call st
    have "c = state g' \<or> c \<in> set (post_step_coordinates g' calls)" by auto
    then show ?thesis
      using nb Cons.IH[OF nb] b' by auto
  qed
qed

text \<open>
  Claim C2, as amended. \<open>reset\<close> rejects terminal coordinates only, and a blocked move
  leaves the agent where it is, so an episode can start on a barrier and stay there. In
  every episode whose \<open>reset\<close> puts the agent on a coordinate that is not a configured
  barrier, no coordinate the agent has after a \<open>step\<close> call is a configured barrier.
\<close>

theorem barrier_invariant:
  assumes "reset g draws = Inr (enc, g0)"
    and "state g0 \<notin> set (barrier_states g)"
    and "b \<in> set (barrier_states g)"
  shows "b \<notin> set (episode_coordinates g draws calls)"
proof -
  have "state g0 \<notin> set (barrier_states g0)" using assms(1,2) reset_Inr(1) by simp
  then have "b \<in> set (post_step_coordinates g0 calls) \<Longrightarrow> b \<notin> set (barrier_states g0)"
    by (rule post_step_not_barrier)
  then show ?thesis using assms(1,3) reset_Inr(1)[OF assms(1)]
    by (auto simp: episode_coordinates_def)
qed

theorem barrier_invariant_witness:
  "\<not> isl (GridWorld_init scenario3 [])
   \<and> \<not> isl (reset scenario3_world [])
   \<and> state (snd (projr (reset scenario3_world []))) = (1, 1)
   \<and> barrier_states scenario3_world = [(1, 2)]
   \<and> episode_coordinates scenario3_world [] [(UP, UP, 0), (RIGHT, RIGHT, 1)] = [(1, 1), (2, 1)]
   \<and> (1, 2) \<notin> set (episode_coordinates scenario3_world [] [(UP, UP, 0), (RIGHT, RIGHT, 1)])"
proof -
  let ?r = "projr (reset scenario3_world [])"
  have c: "\<not> isl (GridWorld_init scenario3 [])" by code_simp
  have ok: "\<not> isl (reset scenario3_world [])" by code_simp
  have eq: "reset scenario3_world [] = Inr (fst ?r, snd ?r)"
    using not_isl_projr[OF ok] by simp
  have s: "state (snd ?r) = (1, 1)" by code_simp
  have b: "barrier_states scenario3_world = [(1, 2)]" by code_simp
  have e: "episode_coordinates scenario3_world [] [(UP, UP, 0), (RIGHT, RIGHT, 1)] = [(1, 1), (2, 1)]"
    by code_simp
  have "(1, 2) \<notin> set (episode_coordinates scenario3_world [] [(UP, UP, 0), (RIGHT, RIGHT, 1)])"
    by (rule barrier_invariant[OF eq]) (simp_all add: s b)
  with c ok s b e show ?thesis by blast
qed

text \<open>
  The claim as stated fails: with a barrier at (0, 0) and a \<open>reset\<close> that draws (0, 0),
  the action DOWN is blocked by the edge of the grid and the agent is on the barrier after
  the step.
\<close>

theorem barrier_invariant_counterexample:
  "\<not> isl (GridWorld_init corner_barrier [(0, 0)])
   \<and> barrier_states corner_barrier_world = [(0, 0)]
   \<and> episode_coordinates corner_barrier_world [(0, 0)] [(DOWN, DOWN, 0)] = [(0, 0)]"
  by code_simp

subsection \<open>Blocked moves\<close>

lemma blocked_stays:
  assumes "within_bounds (width g) (height g) (state g)"
    and "a \<in> {UP, RIGHT, DOWN, LEFT}"
    and "blocked g (destination (state g) a)"
  shows "move_agent g a = state g"
  using assms
  by (cases "state g")
     (auto simp: move_agent_def blocked_def destination_def within_bounds_def UP_def RIGHT_def DOWN_def LEFT_def)

text \<open>
  Claim C5. From a current coordinate on the grid, for an executed action whose one-cell
  destination is off the grid or in the barrier list, \<open>move_agent\<close> (a total function:
  it has no failing operation) returns the current coordinate unchanged, and a \<open>step\<close>
  that returns leaves the agent there with the reward sampled from the reward object of
  the current cell.
\<close>

theorem blocked_move_stays:
  assumes "within_bounds (width g) (height g) (state g)"
    and "a \<in> {UP, RIGHT, DOWN, LEFT}"
    and "blocked g (destination (state g) a)"
  shows "move_agent g a = state g
    \<and> (\<forall>input_action seed res g'.
         step g input_action a seed = Inr (res, g') \<longrightarrow>
           state g' = state g
           \<and> get_sampled_reward g seed (state g) a (state g) = Inr (fst (snd res))
           \<and> (\<exists>cell. get_reward g (state g) a (state g) = Inr cell
                \<and> py_get (sample cell seed) 0 = Inr (fst (snd res))))"
proof -
  have m: "move_agent g a = state g" using assms by (rule blocked_stays)
  have "state g' = state g
           \<and> get_sampled_reward g seed (state g) a (state g) = Inr (fst (snd res))
           \<and> (\<exists>cell. get_reward g (state g) a (state g) = Inr cell
                \<and> py_get (sample cell seed) 0 = Inr (fst (snd res)))"
    if st: "step g input_action a seed = Inr (res, g')" for input_action seed res g'
  proof -
    have 1: "state g' = state g" using step_Inr(1)[OF st] m by simp
    have 2: "get_sampled_reward g seed (state g) a (state g) = Inr (fst (snd res))"
      using step_Inr(7)[OF st] m by simp
    then have 3: "\<exists>cell. get_reward g (state g) a (state g) = Inr cell
                \<and> py_get (sample cell seed) 0 = Inr (fst (snd res))"
      by (auto simp: get_sampled_reward_def get_reward_def split: sum.splits)
    from 1 2 3 show ?thesis by blast
  qed
  with m show ?thesis by blast
qed

theorem blocked_move_stays_witness:
  "\<not> isl (GridWorld_init scenario3 [])
   \<and> state scenario3_world = (1, 1)
   \<and> destination (state scenario3_world) UP = (1, 2)
   \<and> blocked scenario3_world (1, 2)
   \<and> move_agent scenario3_world UP = (1, 1)
   \<and> \<not> isl (step scenario3_world UP UP 0)
   \<and> state (snd (projr (step scenario3_world UP UP 0))) = (1, 1)
   \<and> get_sampled_reward scenario3_world 0 (1, 1) UP (1, 1)
       = Inr (fst (snd (fst (projr (step scenario3_world UP UP 0)))))
   \<and> fst (snd (fst (projr (step scenario3_world UP UP 0)))) = - 1"
proof -
  let ?r = "projr (step scenario3_world UP UP 0)"
  have c: "\<not> isl (GridWorld_init scenario3 [])" by code_simp
  have s: "state scenario3_world = (1, 1)" by code_simp
  have w: "within_bounds (width scenario3_world) (height scenario3_world) (state scenario3_world)"
    by code_simp
  have d: "destination (state scenario3_world) UP = (1, 2)" by code_simp
  have b: "blocked scenario3_world (1, 2)" by code_simp
  have ok: "\<not> isl (step scenario3_world UP UP 0)" by code_simp
  have eq: "step scenario3_world UP UP 0 = Inr (fst ?r, snd ?r)"
    using not_isl_projr[OF ok] by simp
  have v: "fst (snd (fst ?r)) = - 1" by code_simp
  have up: "UP \<in> {UP, RIGHT, DOWN, LEFT}" by simp
  have bl: "blocked scenario3_world (destination (state scenario3_world) UP)"
    using b d by simp
  note th = blocked_move_stays[OF w up bl]
  have 1: "move_agent scenario3_world UP = state scenario3_world"
    using th by (rule conjunct1)
  have 2: "state (snd ?r) = state scenario3_world
           \<and> get_sampled_reward scenario3_world 0 (state scenario3_world) UP
                (state scenario3_world) = Inr (fst (snd (fst ?r)))"
    using th[THEN conjunct2, rule_format, OF eq] by simp
  from 1 2 s have "move_agent scenario3_world UP = (1, 1)"
    and "state (snd ?r) = (1, 1)"
    and "get_sampled_reward scenario3_world 0 (1, 1) UP (1, 1) = Inr (fst (snd (fst ?r)))"
    by simp_all
  with c s d b ok v show ?thesis by metis
qed

subsection \<open>Indexing of the reward grid by decoded states\<close>

text \<open>
  Claim C10. When the constructor reaches the computation of the barrier set (line 116)
  with \<open>height = width\<close>, every encoded state \<open>s\<close> in \<open>[0, height * width)\<close> decodes to a
  coordinate within the grid, its expected self-transition reward is read without an
  exception, and the computation returns. For the grid with 2 rows and 3 columns the
  state 2 decodes to (0, 2), whose row index 2 is outside the reward grid, and the
  computation raises IndexError.
\<close>

theorem barrier_set_indexing:
  "(init_before_barrier_set a draws = Inr g \<and> height g = width g \<longrightarrow>
      (\<forall>s. 0 \<le> s \<and> s < n_states g \<longrightarrow>
         (\<exists>x y v. decode_state g s = Inr (x, y)
            \<and> within_bounds (width g) (height g) (x, y)
            \<and> get_expected_reward g (x, y) 0 (x, y) = Inr v))
      \<and> \<not> isl (init_barrier_set g))
   \<and> (\<exists>g s x y. init_before_barrier_set wide_grid [] = Inr g
         \<and> height g \<noteq> width g \<and> 0 \<le> s \<and> s < n_states g
         \<and> decode_state g s = Inr (x, y)
         \<and> \<not> within_bounds (width g) (height g) (x, y)
         \<and> get_expected_reward g (x, y) 0 (x, y) = Inl IndexError
         \<and> init_barrier_set g = Inl IndexError)"
proof (intro conjI impI)
  assume asm: "init_before_barrier_set a draws = Inr g \<and> height g = width g"
  then have c: "init_before_barrier_set a draws = Inr g" and sq: "height g = width g"
    by simp_all
  note f = init_before_barrier_set_Inr[OF c]
  have acc: "\<exists>x y v. decode_state g s = Inr (x, y)
            \<and> within_bounds (width g) (height g) (x, y)
            \<and> get_expected_reward g (x, y) 0 (x, y) = Inr v"
    if s: "0 \<le> s" "s < n_states g" for s
  proof -
    have lt: "s < width g * width g" using s(2) f(5) sq by simp
    have b: "s mod width g < width g \<and> s div width g < width g"
      using square_in_bounds[OF f(4) s(1) lt] .
    then have "\<exists>st v. decode_state g s = Inr st \<and> get_expected_reward g st 0 st = Inr v"
      using cell_access[OF f(4) f(12) s(1)] sq by simp
    then obtain v where "get_expected_reward g (s div width g, s mod width g) 0
        (s div width g, s mod width g) = Inr v"
      using f(4) by (auto simp: decode_state_pos)
    moreover have "within_bounds (width g) (height g) (s div width g, s mod width g)"
      using b sq f(4) s(1) by (simp add: within_bounds_def pos_imp_zdiv_nonneg_iff)
    ultimately show ?thesis using f(4) by (auto simp: decode_state_pos)
  qed
  then show "\<forall>s. 0 \<le> s \<and> s < n_states g \<longrightarrow>
         (\<exists>x y v. decode_state g s = Inr (x, y)
            \<and> within_bounds (width g) (height g) (x, y)
            \<and> get_expected_reward g (x, y) 0 (x, y) = Inr v)" by blast
  have "\<exists>bs. barrier_loop g [0 .. n_states g - 1] [] = Inr bs"
  proof (rule barrier_loop_total)
    fix s assume "s \<in> set [0 .. n_states g - 1]"
    then have "0 \<le> s" "s < n_states g" by simp_all
    from acc[OF this] show "\<exists>st v. decode_state g s = Inr st \<and> get_expected_reward g st 0 st = Inr v"
      by blast
  qed
  then show "\<not> isl (init_barrier_set g)"
    by (auto simp: init_barrier_set_def and_then_def)
next
  let ?g = "projr (init_before_barrier_set wide_grid [])"
  have ok: "\<not> isl (init_before_barrier_set wide_grid [])" by code_simp
  have 1: "init_before_barrier_set wide_grid [] = Inr ?g" using not_isl_projr[OF ok] .
  have 2: "height ?g \<noteq> width ?g" by code_simp
  have 3: "(2::int) < n_states ?g" by code_simp
  have 4: "decode_state ?g 2 = Inr (0, 2)" by code_simp
  have 5: "\<not> within_bounds (width ?g) (height ?g) (0, 2)" by code_simp
  have 6: "get_expected_reward ?g (0, 2) 0 (0, 2) = Inl IndexError" by code_simp
  have 7: "barrier_loop ?g [0 .. n_states ?g - 1] [] = Inl IndexError" by code_simp
  have 8: "init_barrier_set ?g = Inl IndexError"
    using 7 by (simp add: init_barrier_set_def and_then_def)
  show "\<exists>g s x y. init_before_barrier_set wide_grid [] = Inr g
         \<and> height g \<noteq> width g \<and> 0 \<le> s \<and> s < n_states g
         \<and> decode_state g s = Inr (x, y)
         \<and> \<not> within_bounds (width g) (height g) (x, y)
         \<and> get_expected_reward g (x, y) 0 (x, y) = Inl IndexError
         \<and> init_barrier_set g = Inl IndexError"
    using 1 2 3 4 5 6 8 by (intro exI[of _ ?g] exI[of _ 2] exI[of _ 0] exI[of _ 2]) simp
qed

theorem barrier_set_indexing_witness:
  "\<not> isl (init_before_barrier_set scenario3 [])
   \<and> height (projr (init_before_barrier_set scenario3 []))
       = width (projr (init_before_barrier_set scenario3 []))
   \<and> n_states (projr (init_before_barrier_set scenario3 [])) = 9
   \<and> (\<exists>x y v. decode_state (projr (init_before_barrier_set scenario3 [])) 5 = Inr (x, y)
        \<and> within_bounds 3 3 (x, y)
        \<and> get_expected_reward (projr (init_before_barrier_set scenario3 [])) (x, y) 0 (x, y) = Inr v)
   \<and> \<not> isl (init_barrier_set (projr (init_before_barrier_set scenario3 [])))"
proof -
  let ?g = "projr (init_before_barrier_set scenario3 [])"
  have ok: "\<not> isl (init_before_barrier_set scenario3 [])" by code_simp
  have 1: "init_before_barrier_set scenario3 [] = Inr ?g" using not_isl_projr[OF ok] .
  have 2: "height ?g = width ?g" by code_simp
  have 3: "n_states ?g = 9" by code_simp
  have w: "width ?g = 3" "height ?g = 3" by code_simp+
  note th = barrier_set_indexing[of scenario3 "[]" ?g, THEN conjunct1, rule_format, OF conjI[OF 1 2]]
  have "\<exists>x y v. decode_state ?g 5 = Inr (x, y)
            \<and> within_bounds (width ?g) (height ?g) (x, y)
            \<and> get_expected_reward ?g (x, y) 0 (x, y) = Inr v"
    using th[THEN conjunct1, rule_format, of 5] 3 by simp
  moreover have "\<not> isl (init_barrier_set ?g)" using th by (rule conjunct2)
  ultimately show ?thesis using ok 2 3 w by simp
qed

subsection \<open>Action probabilities\<close>

lemma default_probabilities:
  assumes "actions g = [0, 1, 2, 3]" and "n_actions g = 4"
    and "transition_probabilities g = [p, (1 - p) / 2, (1 - p) / 2, 0]"
  shows "set_action_probabilities g 0 = Inr [p, (1 - p) / 2, 0, (1 - p) / 2]"
    and "set_action_probabilities g 1 = Inr [(1 - p) / 2, p, (1 - p) / 2, 0]"
    and "set_action_probabilities g 2 = Inr [0, (1 - p) / 2, p, (1 - p) / 2]"
    and "set_action_probabilities g 3 = Inr [(1 - p) / 2, 0, (1 - p) / 2, p]"
  using assms
  by (simp_all add: set_action_probabilities_def and_then_def py_get_def py_set_def py_index_def
      eval_nat_numeral)

text \<open>
  Claim C3. For an object constructed with the default action list (its \<open>proba\<close> \<open>p\<close> is
  then in \<open>[0, 1]\<close>) and every intended action \<open>a\<close> in \<open>{0, 1, 2, 3}\<close>,
  \<open>set_action_probabilities\<close> returns a vector of length 4 that holds \<open>p\<close> in slot \<open>a\<close>,
  \<open>(1 - p) / 2\<close> in the slots \<open>(a + 1) mod 4\<close> and \<open>(a - 1) mod 4\<close> and 0 in slot
  \<open>(a + 2) mod 4\<close>; its entries are not negative and sum to 1.
\<close>

theorem action_probabilities:
  assumes "GridWorld_init a draws = Inr g"
    and "arg_actions a = None"
    and "action \<in> {0, 1, 2, 3}"
  shows "\<exists>ps. set_action_probabilities g action = Inr ps
           \<and> length ps = 4
           \<and> ps ! nat action = arg_proba a
           \<and> ps ! nat ((action + 1) mod 4) = (1 - arg_proba a) / 2
           \<and> ps ! nat ((action - 1) mod 4) = (1 - arg_proba a) / 2
           \<and> ps ! nat ((action + 2) mod 4) = 0
           \<and> list_all (\<lambda>q. 0 \<le> q) ps
           \<and> sum_list ps = 1"
proof -
  note f = GridWorld_init_Inr[OF assms(1)]
  have acts: "actions g = [0, 1, 2, 3]"
    using f(6) assms(2) by (simp add: UP_def RIGHT_def DOWN_def LEFT_def)
  then have n: "n_actions g = 4" using f(7) by simp
  have "replicate (nat (4 - 2)) ((1 - arg_proba a) / real_of_int (4 - 2))
        = [(1 - arg_proba a) / 2, (1 - arg_proba a) / 2]"
    by (simp add: numeral_2_eq_2)
  then have tp: "transition_probabilities g
      = [arg_proba a, (1 - arg_proba a) / 2, (1 - arg_proba a) / 2, 0]"
    using f(8) n by simp
  note d = default_probabilities[OF acts n tp]
  from assms(3) consider "action = 0" | "action = 1" | "action = 2" | "action = 3" by auto
  then show ?thesis
  proof cases
    case 1 then show ?thesis using d(1) f(9,10) by simp
  next
    case 2 then show ?thesis using d(2) f(9,10) by simp
  next
    case 3 then show ?thesis using d(3) f(9,10) by (simp add: numeral_2_eq_2)
  next
    case 4 then show ?thesis using d(4) f(9,10) by (simp add: numeral_3_eq_3)
  qed
qed

theorem action_probabilities_witness:
  "\<not> isl (GridWorld_init drift [])
   \<and> arg_actions drift = None
   \<and> set_action_probabilities (projr (GridWorld_init drift [])) 0
        = Inr [4 / 5, 1 / 10, 0, 1 / 10]"
proof -
  let ?g = "projr (GridWorld_init drift [])"
  have ok: "\<not> isl (GridWorld_init drift [])" by code_simp
  have 1: "GridWorld_init drift [] = Inr ?g" using not_isl_projr[OF ok] .
  have 2: "arg_actions drift = None" by code_simp
  have 3: "(0::int) \<in> {0, 1, 2, 3}" by simp
  have p: "arg_proba drift = 4 / 5" by code_simp
  from action_probabilities[OF 1 2 3] obtain ps where
    ps: "set_action_probabilities ?g 0 = Inr ps" "length ps = 4"
      "ps ! nat 0 = arg_proba drift"
      "ps ! nat ((0 + 1) mod 4) = (1 - arg_proba drift) / 2"
      "ps ! nat ((0 - 1) mod 4) = (1 - arg_proba drift) / 2"
      "ps ! nat ((0 + 2) mod 4) = 0"
    by blast
  from ps(2) obtain p0 p1 p2 p3 where l: "ps = [p0, p1, p2, p3]"
    by (auto simp: length_Suc_conv numeral_eq_Suc)
  from ps(3-6) l p have "ps = [4 / 5, 1 / 10, 0, 1 / 10]"
    by (simp add: numeral_2_eq_2 numeral_3_eq_3)
  with ps(1) ok 2 show ?thesis by simp
qed

subsection \<open>Weights under the second task\<close>

lemma np_unique_numbers:
  "np_unique (map (map deterministic_reward) rows) = sorted_list_of_set (set (concat rows))"
proof -
  have "map value (concat (map (map deterministic_reward) rows)) = concat rows"
    by (induction rows) (simp_all add: deterministic_reward_def comp_def)
  then have "np_unique (map (map deterministic_reward) rows) = sort (remdups (concat rows))"
    by (simp add: np_unique_def)
  also have "\<dots> = sorted_list_of_set (set (concat rows))"
    by (rule sorted_list_of_set_sort_remdups[symmetric])
  finally show ?thesis .
qed

lemma init_rewards_numbers:
  "init_rewards a g = Inr g1 \<Longrightarrow> arg_rewards a = Some (Numbers rows) \<Longrightarrow>
     rewards g1 = map (map deterministic_reward) rows"
  by (auto simp: init_rewards_def Let_def and_then_Inr split: if_splits)

lemma init_features_distinct:
  "init_features a g = Inr g1 \<Longrightarrow> arg_task a = Some same_blocks \<Longrightarrow>
     distinct_rewards g1 = Some (arg_distinct_rewards a)"
  by (auto simp: init_features_def Let_def and_then_Inr)

lemma GridWorld_init_rewards_numbers:
  assumes "GridWorld_init a draws = Inr g" and "arg_rewards a = Some (Numbers rows)"
  shows "rewards g = map (map deterministic_reward) rows"
proof -
  from assms(1) obtain g0 g1 g2 g3 where 0: "init_grid a = Inr g0"
    and 1: "init_rewards a g0 = Inr g1" and 2: "init_state g1 draws = Inr g2"
    and 3: "init_features a g2 = Inr g3" and 4: "init_barrier_set g3 = Inr g"
    by (auto simp: GridWorld_init_def init_before_barrier_set_def and_then_Inr)
  show ?thesis
    using init_rewards_numbers[OF 1 assms(2)] init_state_Inr(9)[OF 2]
      init_features_Inr(9)[OF 3] init_barrier_set_Inr(9)[OF 4] by simp
qed

lemma GridWorld_init_distinct:
  assumes "GridWorld_init a draws = Inr g" and "arg_task a = Some same_blocks"
  shows "distinct_rewards g = Some (arg_distinct_rewards a)"
proof -
  from assms(1) obtain g2 g3 where 3: "init_features a g2 = Inr g3"
    and 4: "init_barrier_set g3 = Inr g"
    by (auto simp: GridWorld_init_def init_before_barrier_set_def and_then_Inr)
  show ?thesis
    using init_features_distinct[OF 3 assms(2)] init_barrier_set_Inr(15)[OF 4] by simp
qed

text \<open>
  Claim C8. An object constructed with the task "Same Blocks, Varying Values",
  \<open>distinct_rewards = 3\<close> and a numeric reward grid whose values are exactly -1 and 0
  has the weights \<open>[0, -1, 0]\<close>, and \<open>get_weights\<close> returns them: the distinct values
  in ascending order with one zero put in front to reach length 3.
\<close>

theorem weights_same_blocks:
  assumes "GridWorld_init a draws = Inr g"
    and "arg_task a = Some same_blocks"
    and "arg_distinct_rewards a = 3"
    and "arg_rewards a = Some (Numbers rows)"
    and "set (concat rows) = {- 1, 0}"
  shows "get_weights g = Inr [0, - 1, 0] \<and> weights g = [0, - 1, 0]"
proof -
  note f = GridWorld_init_Inr[OF assms(1)]
  have t: "task g = same_blocks" using f(14) assms(2) by simp
  have d: "distinct_rewards g = Some 3"
    using GridWorld_init_distinct[OF assms(1,2)] assms(3) by simp
  have "np_unique (rewards g) = sorted_list_of_set (set (concat rows))"
    by (simp only: GridWorld_init_rewards_numbers[OF assms(1,4)] np_unique_numbers)
  then have "np_unique (rewards g) = sorted_list_of_set {- 1, 0 :: real}"
    by (simp only: assms(5))
  then have u: "np_unique (rewards g) = [- 1, 0]" by simp
  have "get_weights g = Inr [0, - 1, 0]"
    using t d u by (simp add: get_weights_def)
  then show ?thesis using f(16) by simp
qed

theorem weights_same_blocks_witness:
  "\<not> isl (GridWorld_init scenario4 [])
   \<and> arg_task scenario4 = Some same_blocks
   \<and> arg_distinct_rewards scenario4 = 3
   \<and> arg_rewards scenario4 = Some (Numbers [[- 1, - 1], [- 1, 0]])
   \<and> get_weights scenario4_world = Inr [0, - 1, 0]"
proof -
  have ok: "\<not> isl (GridWorld_init scenario4 [])" by code_simp
  have 1: "GridWorld_init scenario4 [] = Inr scenario4_world"
    using not_isl_projr[OF ok] by (simp add: scenario4_world_def)
  have 2: "arg_task scenario4 = Some same_blocks" by (simp add: scenario4_def)
  have 3: "arg_distinct_rewards scenario4 = 3" by (simp add: scenario4_def scenario1_def)
  have 4: "arg_rewards scenario4 = Some (Numbers [[- 1, - 1], [- 1, 0]])"
    by (simp add: scenario4_def)
  have 5: "set (concat [[- 1, - 1], [- 1, 0 :: real]]) = {- 1, 0}" by auto
  from weights_same_blocks[OF 1 2 3 4 5] ok 2 3 4 show ?thesis by simp
qed

subsection \<open>Length of the feature vector\<close>

lemma weights_loop_length:
  "weights_loop g ss ws = Inr ws' \<Longrightarrow> length ws' = length ws"
proof (induction ss arbitrary: ws)
  case Nil
  then show ?case by simp
next
  case (Cons s ss)
  then show ?case
    by (fastforce simp: py_set_def split: sum.splits option.splits)
qed

lemma has_shape_shape:
  "has_shape grid h w \<Longrightarrow> 0 < h \<Longrightarrow> shape0 grid = h \<and> shape1 grid = w"
  by (cases grid) (auto simp: has_shape_def shape0_def shape1_def)

lemma encode_in_range:
  fixes w x y :: int
  assumes "0 \<le> x" and "x < w" and "0 \<le> y" and "y < w"
  shows "0 \<le> x * w + y \<and> x * w + y < w * w"
proof -
  have "x + 1 \<le> w" using assms(2) by simp
  then have "(x + 1) * w \<le> w * w" using assms(2,1) by (intro mult_right_mono) auto
  then have "x * w + y < w * w" using assms(4) by (simp add: distrib_right)
  moreover have "0 \<le> x * w" using assms(1,2) by simp
  ultimately show ?thesis using assms(3) by simp
qed

text \<open>
  Claim C7. For every object the constructor returns, under either task, and every
  transition whose next state is a coordinate of the grid, \<open>get_feature_vector\<close>
  returns a vector as long as the weight vector \<open>get_weights\<close> returns.
\<close>

theorem feature_vector_length:
  assumes "GridWorld_init a draws = Inr g"
    and "within_bounds (width g) (height g) next_state"
  shows "\<exists>fv ws. get_feature_vector g st action next_state = Inr fv
           \<and> get_weights g = Inr ws \<and> length fv = length ws"
proof (cases "task g = same_blocks")
  case True
  note f = GridWorld_init_Inr[OF assms(1)]
  from assms(2) have "\<exists>cell. get_reward g st action next_state = Inr cell"
    using py_get2_shape[OF f(12), of "snd next_state" "fst next_state"]
    by (simp add: get_reward_def within_bounds_def)
  then show ?thesis using True f(16)
    by (auto simp: get_feature_vector_def and_then_def)
next
  case False
  note f = GridWorld_init_Inr[OF assms(1)]
  have es: "has_shape (expected_rewards g) (height g) (width g)"
    using f(12,13) by (simp add: has_shape_map)
  have "weights_loop g [0 .. n_states g - 1]
          (replicate (nat (height g * width g)) 0) = Inr (weights g)"
    using f(16) False has_shape_shape[OF es f(3)] by (simp add: get_weights_def)
  from weights_loop_length[OF this]
  have len: "int (length (weights g)) = width g * width g"
    using f(3,4,17) by simp
  obtain x y where ns: "next_state = (x, y)" by (cases next_state) auto
  have "0 \<le> x * width g + y \<and> x * width g + y < width g * width g"
    using assms(2) ns f(17) by (intro encode_in_range) (simp_all add: within_bounds_def)
  then have "\<exists>fv. py_set (replicate (nat (n_weights g)) 0) (encode_state g next_state) 1 = Inr fv
         \<and> length fv = length (weights g)"
    using len f(15) ns by (simp add: py_set_nonneg encode_state_def)
  then show ?thesis using False f(16) by (auto simp: get_feature_vector_def)
qed

theorem feature_vector_length_witness:
  "\<not> isl (GridWorld_init scenario3 []) \<and> \<not> isl (GridWorld_init scenario4 [])
   \<and> task scenario3_world = varying_blocks \<and> task scenario4_world = same_blocks
   \<and> within_bounds (width scenario3_world) (height scenario3_world) (2, 1)
   \<and> within_bounds (width scenario4_world) (height scenario4_world) (1, 1)
   \<and> (\<exists>fv ws. get_feature_vector scenario3_world (1, 1) RIGHT (2, 1) = Inr fv
         \<and> get_weights scenario3_world = Inr ws \<and> length fv = length ws)
   \<and> (\<exists>fv ws. get_feature_vector scenario4_world (1, 0) UP (1, 1) = Inr fv
         \<and> get_weights scenario4_world = Inr ws \<and> length fv = length ws)"
proof -
  have ok3: "\<not> isl (GridWorld_init scenario3 [])" by code_simp
  have ok4: "\<not> isl (GridWorld_init scenario4 [])" by code_simp
  have c3: "GridWorld_init scenario3 [] = Inr scenario3_world"
    using not_isl_projr[OF ok3] by (simp add: scenario3_world_def)
  have c4: "GridWorld_init scenario4 [] = Inr scenario4_world"
    using not_isl_projr[OF ok4] by (simp add: scenario4_world_def)
  have t3: "task scenario3_world = varying_blocks" by code_simp
  have t4: "task scenario4_world = same_blocks" by code_simp
  have w3: "within_bounds (width scenario3_world) (height scenario3_world) (2, 1)" by code_simp
  have w4: "within_bounds (width scenario4_world) (height scenario4_world) (1, 1)" by code_simp
  from feature_vector_length[OF c3 w3, of "(1, 1)" RIGHT]
    feature_vector_length[OF c4 w4, of "(1, 0)" UP] ok3 ok4 t3 t4 w3 w4
  show ?thesis by blast
qed

subsection \<open>Default rewards\<close>

lemma py_set2_nonneg:
  assumes "0 \<le> r" and "r < int (length grid)" and "0 \<le> c"
    and "c < int (length (grid ! nat r))"
  shows "py_set2 grid r c v = Inr (grid[nat r := (grid ! nat r)[nat c := v]])"
  using assms by (simp add: py_set2_def and_then_def py_get_nonneg py_set_nonneg)

lemma init_rewards_default:
  assumes "init_rewards a g = Inr g1" and "arg_rewards a = None"
    and "terminal_states g = []" and "0 < height g" and "0 < width g"
  shows "terminal_states g1 = [(height g - 1, width g - 1)]"
    and "rewards g1 = (replicate (nat (height g)) (replicate (nat (width g)) (deterministic_reward (- 1))))
            [nat (height g - 1) := (replicate (nat (width g)) (deterministic_reward (- 1)))
               [nat (width g - 1) := deterministic_reward 0]]"
proof -
  let ?base = "replicate (nat (height g)) (replicate (nat (width g)) (deterministic_reward (- 1)))"
  have ps: "py_set2 ?base (height g - 1) (width g - 1) (deterministic_reward 0)
     = Inr (?base[nat (height g - 1) := (replicate (nat (width g)) (deterministic_reward (- 1)))
               [nat (width g - 1) := deterministic_reward 0]])"
    using assms(4,5) by (subst py_set2_nonneg) simp_all
  from assms(1,2,3) show "terminal_states g1 = [(height g - 1, width g - 1)]"
    by (auto simp: init_rewards_def Let_def and_then_Inr ps split: if_splits)
  from assms(1,2,3) show "rewards g1 = ?base
            [nat (height g - 1) := (replicate (nat (width g)) (deterministic_reward (- 1)))
               [nat (width g - 1) := deterministic_reward 0]]"
    by (auto simp: init_rewards_def Let_def and_then_Inr ps split: if_splits)
qed

lemma default_cell:
  fixes h w x y :: int
  assumes "0 \<le> x" and "x < w" and "0 \<le> y" and "y < h"
  shows "(replicate (nat h) (replicate (nat w) m))
            [nat (h - 1) := (replicate (nat w) m)[nat (w - 1) := z]] ! nat y ! nat x
         = (if y = h - 1 \<and> x = w - 1 then z else m)"
proof (cases "y = h - 1")
  case True
  then show ?thesis using assms by (auto simp: nth_list_update)
next
  case False
  then have "nat y \<noteq> nat (h - 1)" using assms by simp
  then show ?thesis using assms False by simp
qed

text \<open>
  Claim C4. For every object the constructor returns when called with no \<open>rewards\<close>
  argument and no terminal states, the bottom-right cell \<open>(width - 1, height - 1)\<close> is
  the only element of \<open>terminal_states\<close> and has expected reward 0, and every other
  cell of the grid holds the deterministic reward -1 (expected value -1, variance 0).
\<close>

theorem default_rewards:
  assumes "GridWorld_init a draws = Inr g"
    and "arg_rewards a = None"
    and "arg_terminal_states a = None \<or> arg_terminal_states a = Some []"
  shows "terminal_states g = [(width g - 1, height g - 1)]
    \<and> get_expected_reward g st action (width g - 1, height g - 1) = Inr 0
    \<and> (\<forall>c. within_bounds (width g) (height g) c \<and> c \<noteq> (width g - 1, height g - 1) \<longrightarrow>
          get_reward g st action c = Inr (deterministic_reward (- 1))
          \<and> get_expected_reward g st action c = Inr (- 1)
          \<and> get_reward_variance g st action c = Inr 0)"
proof -
  note f = GridWorld_init_Inr[OF assms(1)]
  from assms(1) obtain g0 g1 g2 g3 where 0: "init_grid a = Inr g0"
    and 1: "init_rewards a g0 = Inr g1" and 2: "init_state g1 draws = Inr g2"
    and 3: "init_features a g2 = Inr g3" and 4: "init_barrier_set g3 = Inr g"
    by (auto simp: GridWorld_init_def init_before_barrier_set_def and_then_Inr)
  note f0 = init_grid_Inr[OF 0]
  have t0: "terminal_states g0 = []" using f0(11) assms(3) by auto
  note d = init_rewards_default[OF 1 assms(2) t0 f0(3,4)]
  have hw: "height g0 = height g" "width g0 = width g"
    using init_rewards_Inr(1,2)[OF 1] init_state_Inr(1,2)[OF 2]
      init_features_Inr(1,2)[OF 3] init_barrier_set_Inr(1,2)[OF 4] by simp_all
  have ts: "terminal_states g = [(height g - 1, width g - 1)]"
    using d(1) init_state_Inr(8)[OF 2] init_features_Inr(8)[OF 3]
      init_barrier_set_Inr(8)[OF 4] hw by simp
  have rs: "rewards g = (replicate (nat (height g)) (replicate (nat (width g)) (deterministic_reward (- 1))))
            [nat (height g - 1) := (replicate (nat (width g)) (deterministic_reward (- 1)))
               [nat (width g - 1) := deterministic_reward 0]]"
    using d(2) init_state_Inr(9)[OF 2] init_features_Inr(9)[OF 3]
      init_barrier_set_Inr(9)[OF 4] hw by simp
  have cell: "py_get2 (rewards g) y x
      = Inr (if y = height g - 1 \<and> x = width g - 1 then deterministic_reward 0
             else deterministic_reward (- 1))"
    if "within_bounds (width g) (height g) (x, y)" for x y
  proof -
    from that have b: "0 \<le> x" "x < width g" "0 \<le> y" "y < height g"
      by (simp_all add: within_bounds_def)
    have "py_get2 (rewards g) y x = Inr (rewards g ! nat y ! nat x)"
      using py_get2_shape[OF f(12) b(3) b(1)] b by simp
    moreover have "rewards g ! nat y ! nat x
        = (if y = height g - 1 \<and> x = width g - 1 then deterministic_reward 0
           else deterministic_reward (- 1))"
      unfolding rs by (rule default_cell[OF b])
    ultimately show ?thesis by simp
  qed
  have corner: "within_bounds (width g) (height g) (width g - 1, height g - 1)"
    using f(3,4) by (simp add: within_bounds_def)
  have 1: "terminal_states g = [(width g - 1, height g - 1)]" using ts f(17) by simp
  have 2: "get_expected_reward g st action (width g - 1, height g - 1) = Inr 0"
    using cell[OF corner] by (simp add: get_expected_reward_def deterministic_reward_def)
  have 3: "get_reward g st action c = Inr (deterministic_reward (- 1))
          \<and> get_expected_reward g st action c = Inr (- 1)
          \<and> get_reward_variance g st action c = Inr 0"
    if c: "within_bounds (width g) (height g) c \<and> c \<noteq> (width g - 1, height g - 1)" for c
  proof -
    obtain x y where xy: "c = (x, y)" by (cases c) auto
    with c have "py_get2 (rewards g) y x = Inr (deterministic_reward (- 1))"
      using cell[of x y] by auto
    then show ?thesis using xy
      by (simp add: get_reward_def get_expected_reward_def get_reward_variance_def
          deterministic_reward_def)
  qed
  from 1 2 3 show ?thesis by blast
qed

theorem default_rewards_witness:
  "\<not> isl (GridWorld_init scenario1 [(0, 0)])
   \<and> arg_rewards scenario1 = None \<and> arg_terminal_states scenario1 = None
   \<and> width scenario1_world = 3 \<and> height scenario1_world = 3
   \<and> terminal_states scenario1_world = [(2, 2)]
   \<and> get_expected_reward scenario1_world (0, 0) UP (2, 2) = Inr 0
   \<and> get_expected_reward scenario1_world (0, 0) UP (1, 2) = Inr (- 1)
   \<and> expected_rewards scenario1_world = [[- 1, - 1, - 1], [- 1, - 1, - 1], [- 1, - 1, 0]]"
proof -
  have ok: "\<not> isl (GridWorld_init scenario1 [(0, 0)])" by code_simp
  have c: "GridWorld_init scenario1 [(0, 0)] = Inr scenario1_world"
    using not_isl_projr[OF ok] by (simp add: scenario1_world_def)
  have r: "arg_rewards scenario1 = None" by (simp add: scenario1_def)
  have t: "arg_terminal_states scenario1 = None" by (simp add: scenario1_def)
  have w: "width scenario1_world = 3" "height scenario1_world = 3" by code_simp+
  have e: "expected_rewards scenario1_world = [[- 1, - 1, - 1], [- 1, - 1, - 1], [- 1, - 1, 0]]"
    by code_simp
  note th = default_rewards[OF c r disjI1[OF t], of "(0, 0)" UP]
  have 1: "terminal_states scenario1_world = [(2, 2)]"
    using th[THEN conjunct1] w by simp
  have 2: "get_expected_reward scenario1_world (0, 0) UP (2, 2) = Inr 0"
    using th[THEN conjunct2, THEN conjunct1] w by simp
  have "within_bounds (width scenario1_world) (height scenario1_world) (1, 2)
        \<and> (1, 2) \<noteq> (width scenario1_world - 1, height scenario1_world - 1)"
    using w by (simp add: within_bounds_def)
  from th[THEN conjunct2, THEN conjunct2, rule_format, OF this]
  have 3: "get_expected_reward scenario1_world (0, 0) UP (1, 2) = Inr (- 1)" by simp
  from ok r t w e 1 2 3 show ?thesis by simp
qed

subsection \<open>Encoding and decoding of states\<close>

text \<open>
  On an object the constructor has returned, which is square, the two functions are
  inverse to each other between the coordinates of the grid and the encoded states.
\<close>

lemma encode_decode_constructed:
  assumes "GridWorld_init a draws = Inr g"
  shows "within_bounds (width g) (height g) c \<Longrightarrow> decode_state g (encode_state g c) = Inr c"
    and "0 \<le> s \<Longrightarrow> s < height g * width g \<Longrightarrow>
           \<exists>c. decode_state g s = Inr c \<and> within_bounds (width g) (height g) c
             \<and> encode_state g c = s"
proof -
  note f = GridWorld_init_Inr[OF assms]
  show "decode_state g (encode_state g c) = Inr c"
    if "within_bounds (width g) (height g) c"
  proof -
    obtain x y where c: "c = (x, y)" by (cases c) auto
    with that f(17) have b: "0 \<le> x" "x < width g" "0 \<le> y" "y < width g"
      by (simp_all add: within_bounds_def)
    then have "(x * width g + y) div width g = x" "(x * width g + y) mod width g = y"
      by simp_all
    then show ?thesis using f(4) c by (simp add: decode_state_pos encode_state_def)
  qed
  show "\<exists>c. decode_state g s = Inr c \<and> within_bounds (width g) (height g) c
             \<and> encode_state g c = s"
    if "0 \<le> s" "s < height g * width g"
  proof -
    have "s mod width g < width g \<and> s div width g < width g"
      using square_in_bounds[OF f(4) that(1)] that(2) f(17) by simp
    then have "within_bounds (width g) (height g) (s div width g, s mod width g)"
      using f(4,17) that(1) by (simp add: within_bounds_def pos_imp_zdiv_nonneg_iff)
    then show ?thesis using f(4) by (simp add: decode_state_pos encode_state_def)
  qed
qed

text \<open>
  Claim C1 fails on the code for a grid that is not square. Constructing the grid with
  2 columns and 3 rows and the initial state (0, 2), a coordinate of that grid, the
  first \<open>reset\<close> encodes (0, 2) as 2 and line 104 decodes 2 to (1, 0): decoding does not
  undo encoding, and the state the constructor stores is not the initial state. The
  constructor then raises IndexError.
\<close>

theorem encode_decode_tall_grid:
  "and_then (init_grid tall_grid) (\<lambda>g0.
   and_then (init_rewards tall_grid g0) (\<lambda>g1.
     Inr (width g1, height g1, initial_state g1,
          within_bounds (width g1) (height g1) (0, 2),
          encode_state g1 (0, 2),
          decode_state g1 (encode_state g1 (0, 2)),
          map_sum id state (init_state g1 []))))
   = Inr (2, 3, Some (0, 2), True, 2, Inr (1, 0), Inr (1, 0))
   \<and> isl (GridWorld_init tall_grid [])
   \<and> projl (GridWorld_init tall_grid []) = IndexError"
  by code_simp

end
